theory Spec2Isabelle
  imports Complex_Main
begin

section \<open>Python values, exceptions and XML nodes\<close>

text \<open>
  Exceptions are values. A raising run keeps the state reached at the raise, because
  the attribute assignments made before it stay made: \<open>Raise e s\<close> is "exception
  \<open>e\<close> left the call, the objects are in state \<open>s\<close>".
\<close>

datatype py_error = AttributeError | TypeError | KeyError | IndexError
  | ZeroDivisionError | FileNotFoundError

datatype 'a result = Ok 'a | Raise py_error 'a

fun state_of :: "'a result \<Rightarrow> 'a" where
  "state_of (Ok s) = s"
| "state_of (Raise e s) = s"

fun is_ok :: "'a result \<Rightarrow> bool" where
  "is_ok (Ok s) = True"
| "is_ok (Raise e s) = False"

fun bind_result :: "'a result \<Rightarrow> ('a \<Rightarrow> 'a result) \<Rightarrow> 'a result" where
  "bind_result (Ok s) f = f s"
| "bind_result (Raise e s) f = Raise e s"

datatype pyval = PNone | PStr string | PInt int

text \<open>Python truth of an optional string: \<open>None\<close> and \<open>''\<close> are false.\<close>

fun truthy :: "string option \<Rightarrow> bool" where
  "truthy None = False"
| "truthy (Some s) = (s \<noteq> [])"

fun str_val :: "string option \<Rightarrow> pyval" where
  "str_val None = PNone"
| "str_val (Some s) = PStr s"

text \<open>Python's \<open>str\<close> of such a value; an integer is written in decimal.\<close>

fun digits :: "nat \<Rightarrow> string" where
  "digits n =
    (if n < 10 then [''0123456789'' ! n]
     else digits (n div 10) @ [''0123456789'' ! (n mod 10)])"

declare digits.simps [simp del]

fun py_str :: "pyval \<Rightarrow> string" where
  "py_str PNone = ''None''"
| "py_str (PStr s) = s"
| "py_str (PInt i) = (if i < 0 then CHR ''-'' # digits (nat (- i)) else digits (nat i))"

text \<open>
  The namespaces are constants of the nbxmpp library; only their identity matters.
\<close>

datatype namespace = JINGLE_FILE_TRANSFER_5 | HASHES_2 | JINGLE_XTLS

text \<open>
  \<open>nbxmpp.simplexml.Node\<close>: a tag name, an optional namespace, attributes, character
  data and the list of children in the order they were added. \<open>addData\<close> and
  \<open>setData\<close> store \<open>str(data)\<close>.
\<close>

datatype xml = Node (tag: string) (xmlns: "namespace option")
  (attrs: "(string \<times> pyval) list") (cdata: "string list") (kids: "xml list")

definition addChild :: "xml \<Rightarrow> xml \<Rightarrow> xml" where
  "addChild n c = Node (tag n) (xmlns n) (attrs n) (cdata n) (kids n @ [c])"

definition addData :: "xml \<Rightarrow> pyval \<Rightarrow> xml" where
  "addData n d = Node (tag n) (xmlns n) (attrs n) (cdata n @ [py_str d]) (kids n)"

definition setData :: "xml \<Rightarrow> pyval \<Rightarrow> xml" where
  "setData n d = Node (tag n) (xmlns n) (attrs n) [py_str d] (kids n)"

definition getTag :: "xml \<Rightarrow> string \<Rightarrow> xml option" where
  "getTag n t = find (\<lambda>k. tag k = t) (kids n)"

text \<open>
  \<open>setTag\<close> returns the first child of that name, adding an empty one at the end when
  there is none. The child stays a child of \<open>n\<close> and the caller goes on mutating it, so
  the model takes the mutation \<open>f\<close> and applies it to the child in place.
\<close>

fun update_first :: "string \<Rightarrow> (xml \<Rightarrow> xml) \<Rightarrow> xml list \<Rightarrow> xml list" where
  "update_first t f [] = [f (Node t None [] [] [])]"
| "update_first t f (k # ks) = (if tag k = t then f k # ks else k # update_first t f ks)"

definition setTag :: "xml \<Rightarrow> string \<Rightarrow> (xml \<Rightarrow> xml) \<Rightarrow> xml" where
  "setTag n t f = Node (tag n) (xmlns n) (attrs n) (cdata n) (update_first t f (kids n))"

section \<open>File properties\<close>

text \<open>
  Modelled from the spec: the class \<open>FileProp\<close> (gajim.common.file_props) is not among
  the sources. The record has the attributes that \<open>jingle_content.py\<close> and
  \<open>filetransfer.py\<close> read and write, with the types of the spec's TransferRecord:
  sizes and offsets are integers, the flags are booleans, the digest is optional.
  Times are Python floats; they are modelled as exact rationals.
  \<open>transfered_size\<close> is the list of samples \<open>(time, transferred bytes)\<close>;
  \<open>continue_cb\<close> tells whether a continue callback is set.
\<close>

record file_props =
  sid :: string
  account :: string
  name :: "string option"
  file_name :: string
  date :: "string option"
  desc :: "string option"
  size_fp :: int
  type_fp :: "string option"
  hash_fp :: "string option"
  algo :: "string option"
  offset :: int
  session_type :: "string option"
  transport_sid :: "string option"
  tt_account :: "string option"
  elapsed_time :: rat
  last_time :: rat
  transfered_size :: "(rat \<times> int) list"
  started :: bool
  paused :: bool
  stalled :: bool
  connected :: bool
  stopped :: bool
  completed :: bool
  continue_cb :: bool

section \<open>Jingle contents (jingle\_content.py)\<close>

type_synonym candidate = "(string \<times> pyval) list"

text \<open>
  \<open>JingleTransport\<close> and \<open>JingleSession\<close> are collaborators that are not among the
  sources. Of the transport the content only writes \<open>remote_candidates\<close>; of the session
  it deletes a key of \<open>contents\<close> and calls \<open>content_negotiated\<close>,
  \<open>send_transport_info\<close>, \<open>send_description_info\<close> and the Jingle module's
  \<open>set_file_info\<close>. The session record keeps the key set of \<open>contents\<close> and the
  arguments of those calls, in call order.
\<close>

record jingle_transport =
  remote_candidates :: "candidate list"

record file_info =
  fi_name :: "string option"
  fi_file_name :: string
  fi_hash :: "string option"
  fi_size :: int
  fi_date :: "string option"
  fi_peerjid :: string

record jingle_session =
  contents :: "(string option \<times> string option) set"
  peerjid :: string
  content_negotiated :: "string option list"
  send_transport_info :: "xml list"
  send_description_info :: "xml list"
  set_file_info :: "file_info list"

datatype callback = On_transport_info | On_content_accept | On_transport_replace
  | Fill_jingle_stanza

record jingle_content =
  transport :: "jingle_transport option"
  creator :: "string option"
  cname :: "string option"
  accepted :: bool
  sent :: bool
  negotiated :: bool
  media :: "string option"
  senders :: string
  allow_sending :: bool
  file_props :: "file_props option"
  use_security :: "bool option"
  callbacks :: "(string \<times> callback list) list option"

text \<open>The content object together with the session that owns it.\<close>

record world =
  self :: jingle_content
  session :: jingle_session

text \<open>
  What the content calls but the sources do not define, taken as parameters:
  the transport's \<open>make_transport(candidates, add_candidates)\<close> and
  \<open>parse_transport_stanza\<close>, the subclass method \<open>_compute_hash\<close> (it yields the hash
  element or \<open>None\<close> and may store the digest in the file properties),
  \<open>load_cert_file\<close> applied to the path of the own certificate, and
  \<open>app.get_jid_without_resource\<close>.
\<close>

record cert =
  get_signature_algorithm :: string
  digest :: "string \<Rightarrow> string"

record env =
  make_transport :: "jingle_transport \<Rightarrow> candidate list option \<Rightarrow> bool \<Rightarrow> xml"
  parse_transport_stanza :: "jingle_transport \<Rightarrow> xml option \<Rightarrow> candidate list"
  compute_hash :: "file_props \<Rightarrow> xml option \<times> file_props"
  load_cert_file :: "cert option"
  get_jid_without_resource :: "string \<Rightarrow> string"

definition init_callbacks :: "(string \<times> callback list) list" where
  "init_callbacks =
    [(''content-accept'', [On_transport_info, On_content_accept]),
     (''content-add'', [On_transport_info]),
     (''content-modify'', []),
     (''content-reject'', []),
     (''content-remove'', []),
     (''description-info'', []),
     (''security-info'', []),
     (''session-accept'', [On_transport_info, On_content_accept]),
     (''session-info'', []),
     (''session-initiate'', [On_transport_info]),
     (''session-terminate'', []),
     (''transport-info'', [On_transport_info]),
     (''transport-replace'', [On_transport_replace]),
     (''transport-accept'', [On_transport_replace]),
     (''transport-reject'', []),
     (''iq-result'', []),
     (''iq-error'', []),
     (''content-accept-sent'', [Fill_jingle_stanza, On_content_accept]),
     (''content-add-sent'', [Fill_jingle_stanza]),
     (''session-initiate-sent'', [Fill_jingle_stanza]),
     (''session-accept-sent'', [Fill_jingle_stanza, On_content_accept]),
     (''session-terminate-sent'', [])]"

definition init_content :: "jingle_transport option \<Rightarrow> string option \<Rightarrow> jingle_content" where
  "init_content tr sndrs =
    \<lparr>transport = tr, creator = None, cname = None,
     accepted = False, sent = False, negotiated = False, media = None,
     senders = (case sndrs of None \<Rightarrow> ''both'' | Some s \<Rightarrow> s),
     allow_sending = True, file_props = None, use_security = None,
     callbacks = Some init_callbacks\<rparr>"

definition is_ready :: "jingle_content \<Rightarrow> bool" where
  "is_ready c = (accepted c \<and> \<not> sent c)"

definition on_negotiated :: "world \<Rightarrow> world" where
  "on_negotiated w =
    (if accepted (self w)
     then w\<lparr>self := (self w)\<lparr>negotiated := True\<rparr>,
            session := (session w)\<lparr>content_negotiated :=
              content_negotiated (session w) @ [media (self w)]\<rparr>\<rparr>
     else w)"

text \<open>
  \<open>add_remote_candidates\<close> writes an attribute of the transport, which raises
  AttributeError when the content has no transport.
\<close>

definition add_remote_candidates :: "candidate list \<Rightarrow> world \<Rightarrow> world result" where
  "add_remote_candidates candidates w =
    (case transport (self w) of
       None \<Rightarrow> Raise AttributeError w
     | Some t \<Rightarrow>
        Ok (w\<lparr>self := (self w)\<lparr>transport :=
              Some (t\<lparr>remote_candidates := candidates\<rparr>)\<rparr>\<rparr>))"

text \<open>
  A handler gets the content object and the \<open>content\<close> node of the stanza, which it may
  extend; \<open>stanza\<close>, \<open>error\<close> and \<open>action\<close> are not used by any handler. The node is
  \<open>None\<close> when the caller passed none.
\<close>

type_synonym hstate = "world \<times> xml option"

definition on_content_accept :: "hstate \<Rightarrow> hstate result" where
  "on_content_accept s = (case s of (w, content) \<Rightarrow> Ok (on_negotiated w, content))"

definition on_transport_replace :: "env \<Rightarrow> hstate \<Rightarrow> hstate result" where
  "on_transport_replace E s = (case s of (w, content) \<Rightarrow>
    (case content of
       None \<Rightarrow> Raise AttributeError s
     | Some c \<Rightarrow>
        (case transport (self w) of
           None \<Rightarrow> Raise AttributeError s
         | Some t \<Rightarrow> Ok (w, Some (addChild c (make_transport E t None True))))))"

definition on_transport_info :: "env \<Rightarrow> hstate \<Rightarrow> hstate result" where
  "on_transport_info E s = (case s of (w, content) \<Rightarrow>
    (case transport (self w) of
       None \<Rightarrow> Raise AttributeError s
     | Some t \<Rightarrow>
        (case content of
           None \<Rightarrow> Raise AttributeError s
         | Some c \<Rightarrow>
            (let candidates = parse_transport_stanza E t (getTag c ''transport'')
             in if candidates \<noteq> []
                then (case add_remote_candidates candidates w of
                        Ok w' \<Rightarrow> Ok (w', content)
                      | Raise e w' \<Rightarrow> Raise e (w', content))
                else Ok s))))"

definition content_node :: "jingle_content \<Rightarrow> xml" where
  "content_node c =
    Node ''content'' None
      [(''name'', str_val (cname c)), (''creator'', str_val (creator c)),
       (''senders'', PStr (senders c))] [] []"

text \<open>
  \<open>str.split('With')[0]\<close>: the part of the string before the first \<open>With\<close>.
\<close>

fun before_With :: "string \<Rightarrow> string" where
  "before_With [] = []"
| "before_With (c # cs) =
    (if take 4 (c # cs) = ''With'' then [] else c # before_With cs)"

definition data_node :: "string \<Rightarrow> pyval \<Rightarrow> xml" where
  "data_node t d = addData (Node t None [] [] []) d"

text \<open>
  The \<open>file\<close> element of the description: name, date and size when they are set, then
  the hash. For a received file a known hash is copied; for any other type the hash
  is computed when the size is below 10000000 and no hash is known, and in that
  branch the Jingle module is told the file's data. The \<open>desc\<close> child comes from
  \<open>setTag\<close>. The result is the element, the file properties after \<open>_compute_hash\<close>
  and the session after \<open>set_file_info\<close>.
\<close>

definition file_tag_of :: "env \<Rightarrow> file_props \<Rightarrow> jingle_session
    \<Rightarrow> xml \<times> file_props \<times> jingle_session" where
  "file_tag_of E fp ses =
    (let file_tag = Node ''file'' None [] [] [];
         file_tag = (if truthy (name fp)
                     then addChild file_tag (data_node ''name'' (str_val (name fp)))
                     else file_tag);
         file_tag = (if truthy (date fp)
                     then addChild file_tag (data_node ''date'' (str_val (date fp)))
                     else file_tag);
         file_tag = (if size_fp fp \<noteq> 0
                     then addChild file_tag (data_node ''size'' (PInt (size_fp fp)))
                     else file_tag);
         (file_tag, fp, ses) =
           (if type_fp fp = Some ''r''
            then (if truthy (hash_fp fp)
                  then (addChild file_tag
                          (Node ''hash'' (Some HASHES_2) [(''algo'', str_val (algo fp))]
                             [py_str (str_val (hash_fp fp))] []), fp, ses)
                  else (file_tag, fp, ses))
            else (if size_fp fp < 10000000 \<and> \<not> truthy (hash_fp fp)
                  then (let (hash_data, fp) = compute_hash E fp;
                            file_tag = (case hash_data of
                                          Some h \<Rightarrow> addChild file_tag h
                                        | None \<Rightarrow> file_tag);
                            pjid = get_jid_without_resource E (peerjid ses);
                            info = \<lparr>fi_name = name fp, fi_file_name = file_name fp,
                                    fi_hash = hash_fp fp, fi_size = size_fp fp,
                                    fi_date = date fp, fi_peerjid = pjid\<rparr>
                        in (file_tag, fp,
                            ses\<lparr>set_file_info := set_file_info ses @ [info]\<rparr>))
                  else (file_tag, fp, ses)));
         file_tag = setTag file_tag ''desc''
                      (\<lambda>d. if truthy (desc fp) then setData d (str_val (desc fp)) else d)
     in (file_tag, fp, ses))"

definition security_node :: "cert \<Rightarrow> xml" where
  "security_node c =
    (let security = Node ''security'' (Some JINGLE_XTLS) [] [] [];
         digest_algo = before_With (get_signature_algorithm c);
         security = addChild security (data_node ''fingerprint'' (PStr (digest c digest_algo)));
         security = addChild security (Node ''method'' None [(''name'', PStr ''x509'')] [] [])
     in security)"

text \<open>
  \<open>_fill_content\<close>. The description is built first, but it is added to \<open>content\<close> on
  the last line, after the security element, which is added only when \<open>use_security\<close>
  is true and the certificate could be loaded. Reading an attribute of a missing
  \<open>file_props\<close> or calling \<open>addChild\<close> on a missing \<open>content\<close> raises AttributeError;
  what \<open>_compute_hash\<close> and \<open>set_file_info\<close> did before stays done.
\<close>

definition fill_content :: "env \<Rightarrow> hstate \<Rightarrow> hstate result" where
  "fill_content E s = (case s of (w, content) \<Rightarrow>
    (case file_props (self w) of
       None \<Rightarrow> Raise AttributeError s
     | Some fp \<Rightarrow>
        (let (file_tag, fp, ses) = file_tag_of E fp (session w);
             description_node = Node ''description'' (Some JINGLE_FILE_TRANSFER_5) [] [] [file_tag];
             w = w\<lparr>self := (self w)\<lparr>file_props := Some fp\<rparr>, session := ses\<rparr>;
             security = (if use_security (self w) = Some True
                         then map_option security_node (load_cert_file E) else None)
         in (case content of
               None \<Rightarrow> Raise AttributeError (w, content)
             | Some c \<Rightarrow>
                (let c = (case security of Some sec \<Rightarrow> addChild c sec | None \<Rightarrow> c)
                 in Ok (w, Some (addChild c description_node)))))))"

definition fill_jingle_stanza :: "env \<Rightarrow> hstate \<Rightarrow> hstate result" where
  "fill_jingle_stanza E s =
    bind_result (fill_content E s) (\<lambda>(w, content).
      (let w = w\<lparr>self := (self w)\<lparr>sent := True\<rparr>\<rparr>
       in (case content of
             None \<Rightarrow> Raise AttributeError (w, content)
           | Some c \<Rightarrow>
              (case transport (self w) of
                 None \<Rightarrow> Raise AttributeError (w, content)
               | Some t \<Rightarrow> Ok (w, Some (addChild c (make_transport E t None True)))))))"

fun call :: "env \<Rightarrow> callback \<Rightarrow> hstate \<Rightarrow> hstate result" where
  "call E On_transport_info s = on_transport_info E s"
| "call E On_content_accept s = on_content_accept s"
| "call E On_transport_replace s = on_transport_replace E s"
| "call E Fill_jingle_stanza s = fill_jingle_stanza E s"

fun run_callbacks :: "env \<Rightarrow> callback list \<Rightarrow> hstate \<Rightarrow> hstate result" where
  "run_callbacks E [] s = Ok s"
| "run_callbacks E (cb # cbs) s = bind_result (call E cb s) (run_callbacks E cbs)"

text \<open>
  \<open>on_stanza\<close>: \<open>action in self.callbacks\<close> raises TypeError when \<open>callbacks\<close> is
  \<open>None\<close>; an action that is not a key does nothing.
\<close>

definition on_stanza :: "env \<Rightarrow> string \<Rightarrow> hstate \<Rightarrow> hstate result" where
  "on_stanza E action s =
    (case callbacks (self (fst s)) of
       None \<Rightarrow> Raise TypeError s
     | Some cbs \<Rightarrow>
        (case map_of cbs action of
           None \<Rightarrow> Ok s
         | Some handlers \<Rightarrow> run_callbacks E handlers s))"

definition send_candidate :: "env \<Rightarrow> candidate \<Rightarrow> world \<Rightarrow> world result" where
  "send_candidate E candidate w =
    (let content = content_node (self w)
     in (case transport (self w) of
           None \<Rightarrow> Raise AttributeError w
         | Some t \<Rightarrow>
            (let content = addChild content (make_transport E t (Some [candidate]) True)
             in Ok (w\<lparr>session := (session w)\<lparr>send_transport_info :=
                      send_transport_info (session w) @ [content]\<rparr>\<rparr>))))"

definition send_error_candidate :: "env \<Rightarrow> world \<Rightarrow> world result" where
  "send_error_candidate E w =
    (let content = content_node (self w)
     in (case transport (self w) of
           None \<Rightarrow> Raise AttributeError w
         | Some t \<Rightarrow>
            (let tp = make_transport E t None False;
                 tp = addChild tp (Node ''candidate-error'' None [] [] []);
                 content = addChild content tp
             in Ok (w\<lparr>session := (session w)\<lparr>send_transport_info :=
                      send_transport_info (session w) @ [content]\<rparr>\<rparr>))))"

definition send_description_info_op :: "env \<Rightarrow> world \<Rightarrow> world result" where
  "send_description_info_op E w =
    (case fill_content E (w, Some (content_node (self w))) of
       Raise e (w, content) \<Rightarrow> Raise e w
     | Ok (w, content) \<Rightarrow>
        (case content of
           None \<Rightarrow> Raise AttributeError w
         | Some c \<Rightarrow> Ok (w\<lparr>session := (session w)\<lparr>send_description_info :=
                        send_description_info (session w) @ [c]\<rparr>\<rparr>)))"

text \<open>
  \<open>destroy\<close> clears \<open>callbacks\<close> first; \<open>del\<close> of a key that the session does not have
  raises KeyError after that.
\<close>

definition destroy :: "world \<Rightarrow> world result" where
  "destroy w =
    (let w = w\<lparr>self := (self w)\<lparr>callbacks := None\<rparr>\<rparr>;
         key = (creator (self w), cname (self w))
     in if key \<in> contents (session w)
        then Ok (w\<lparr>session := (session w)\<lparr>contents := contents (session w) - {key}\<rparr>\<rparr>)
        else Raise KeyError w)"

section \<open>The file transfers window (filetransfer.py)\<close>

subsection \<open>Speed and remaining time\<close>

text \<open>
  Python's \<open>round\<close> with one argument: the nearest integer, a tie goes to the even
  one.
\<close>

definition py_round :: "rat \<Rightarrow> int" where
  "py_round x =
    (let f = \<lfloor>x\<rfloor>; d = x - of_int f
     in if d < 1 / 2 then f
        else if 1 / 2 < d then f + 1
        else if even f then f else f + 1)"

text \<open>
  \<open>_get_eta_and_speed\<close>. The result is \<open>(eta, speed)\<close>; the division by an
  \<open>elapsed_time\<close> of zero raises ZeroDivisionError.
\<close>

definition get_eta_and_speed :: "int \<Rightarrow> int \<Rightarrow> file_props \<Rightarrow> py_error + (rat \<times> int)" where
  "get_eta_and_speed full_size transfered fp =
    (if transfered_size fp = [] then Inr (0, 0)
     else
      (case (if length (transfered_size fp) = 1
             then (if elapsed_time fp = 0 then Inl ZeroDivisionError
                   else Inr (Some (py_round (of_int transfered / elapsed_time fp))))
             else (let first = hd (transfered_size fp);
                       last_sample = last (transfered_size fp);
                       transfered' = snd last_sample - snd first;
                       tim = fst last_sample - fst first
                   in if tim = 0 then Inr None
                      else Inr (Some (py_round (of_int transfered' / tim))))) of
         Inl e \<Rightarrow> Inl e
       | Inr None \<Rightarrow> Inr (0, 0)
       | Inr (Some speed) \<Rightarrow>
           if speed = 0 then Inr (0, 0)
           else (let remaining_size = full_size - transfered
                 in Inr (of_int remaining_size / of_int speed, speed))))"



subsection \<open>The window\<close>

text \<open>
  A row of the list store. Of its columns the model keeps the icon name (IMAGE), the
  pulse (PULSE) and the identifier \<open>type_ + sid\<close> (SID); of the TIME column, a text
  formatted from the remaining time and the speed, it keeps these two numbers. The
  label, file and progress texts and the percentage are display values built with
  helpers that are not among the sources; they are left out, and so are the buttons,
  menu items and the selection callback that the methods update.
\<close>

record row =
  r_image :: "string option"
  r_time :: "(rat \<times> int) option"
  r_pulse :: "int option"
  r_sid :: "string option"

definition empty_row :: row where
  "empty_row = \<lparr>r_image = None, r_time = None, r_pulse = None, r_sid = None\<rparr>"

record contact =
  shown_name :: string
  full_jid :: string

text \<open>
  What the window calls but the sources do not define, taken as parameters:
  \<open>is_transfer_paused\<close> and \<open>is_transfer_active\<close> of the bytestream module, the contact
  lookups of \<open>app\<close>, the random string that \<open>helpers.get_random_string_16\<close> returns,
  the accounts with a connection and the transport sid that the Jingle module's
  \<open>start_file_transfer(fjid, file_props, request)\<close> of an account returns.
\<close>

record ft_env =
  is_transfer_paused :: "file_props option \<Rightarrow> bool"
  is_transfer_active :: "file_props option \<Rightarrow> bool"
  get_room_and_nick_from_fjid :: "string \<Rightarrow> string \<times> string"
  get_contact :: "string \<Rightarrow> string \<Rightarrow> string \<Rightarrow> contact option"
  get_contact_with_highest_priority :: "string \<Rightarrow> string \<Rightarrow> contact option"
  get_random_string_16 :: string
  connections :: "string set"
  start_file_transfer :: "string \<Rightarrow> string \<Rightarrow> file_props \<Rightarrow> bool \<Rightarrow> string option"

text \<open>
  The state that the window's methods read and write: the rows of the list store
  (first row first), the selected row, the registry \<open>FilesProp\<close> of all transfer
  records, the paths of the files that exist, and the calls made to
  \<open>start_file_transfer\<close> (account, full jid, record, request flag) and to the records'
  continue callbacks. A transfer record is an object that several places refer to; the
  model refers to it by its position in the registry, and \<open>None\<close> or a position outside
  the registry stands for Python's \<open>None\<close>.
\<close>

record ft_window =
  model :: "row list"
  selected :: "nat option"
  files_prop :: "file_props list"
  files :: "string set"
  start_file_transfer_calls :: "(string \<times> string \<times> file_props \<times> bool) list"
  continue_cb_calls :: "nat list"

definition deref :: "ft_window \<Rightarrow> nat option \<Rightarrow> file_props option" where
  "deref W ref =
    (case ref of
       None \<Rightarrow> None
     | Some i \<Rightarrow> if i < length (files_prop W) then Some (files_prop W ! i) else None)"

definition update_prop :: "nat \<Rightarrow> (file_props \<Rightarrow> file_props) \<Rightarrow> ft_window \<Rightarrow> ft_window" where
  "update_prop i f W =
    (if i < length (files_prop W)
     then W\<lparr>files_prop := (files_prop W)[i := f (files_prop W ! i)]\<rparr> else W)"

definition update_row :: "nat \<Rightarrow> (row \<Rightarrow> row) \<Rightarrow> ft_window \<Rightarrow> ft_window" where
  "update_row r f W =
    (if r < length (model W) then W\<lparr>model := (model W)[r := f (model W ! r)]\<rparr> else W)"

definition icons :: "(string \<times> string) list" where
  "icons =
    [(''upload'', ''go-up''),
     (''download'', ''go-down''),
     (''stop'', ''window-close''),
     (''waiting'', ''view-refresh''),
     (''pause'', ''media-playback-pause''),
     (''continue'', ''media-playback-start''),
     (''ok'', ''emblem-ok-symbolic''),
     (''computing'', ''system-run''),
     (''hash_error'', ''network-error-symbolic'')]"

definition MAXINT32 :: int where
  "MAXINT32 = 2147483647"

fun first_index :: "('a \<Rightarrow> bool) \<Rightarrow> 'a list \<Rightarrow> nat option" where
  "first_index P [] = None"
| "first_index P (x # xs) = (if P x then Some 0 else map_option Suc (first_index P xs))"

text \<open>
  Modelled from the spec: the registry class \<open>FilesProp\<close> (gajim.common.file_props) is
  not among the sources. \<open>getFilePropByType\<close> is the first record of the registry with
  that type and sid, or \<open>None\<close>; \<open>getNewFileProp\<close> creates a brand-new record for the
  account and sid, with nothing transferred, no offset and all flags false, and
  registers it.
\<close>

definition getFilePropByType :: "file_props list \<Rightarrow> string option \<Rightarrow> string \<Rightarrow> nat option" where
  "getFilePropByType fps typ sd = first_index (\<lambda>fp. type_fp fp = typ \<and> sid fp = sd) fps"

definition new_file_prop :: "string \<Rightarrow> string \<Rightarrow> file_props" where
  "new_file_prop acct sd =
    \<lparr>sid = sd, account = acct, name = None, file_name = [],
     date = None, desc = None, size_fp = 0, type_fp = None, hash_fp = None,
     algo = None, offset = 0, session_type = None,
     transport_sid = None, tt_account = None, elapsed_time = 0, last_time = 0,
     transfered_size = [], started = False, paused = False, stalled = False,
     connected = False, stopped = False, completed = False, continue_cb = False\<rparr>"

definition getNewFileProp :: "string \<Rightarrow> string \<Rightarrow> ft_window \<Rightarrow> nat \<times> ft_window" where
  "getNewFileProp acct sd W =
    (length (files_prop W), W\<lparr>files_prop := files_prop W @ [new_file_prop acct sd]\<rparr>)"

text \<open>
  \<open>get_iter_by_sid\<close>: the first row whose SID is \<open>typ + sid\<close>. The concatenation is
  evaluated for each row that the loop visits, so a \<open>typ\<close> of \<open>None\<close> raises TypeError
  unless there is no row at all.
\<close>

definition get_iter_by_sid :: "ft_window \<Rightarrow> string option \<Rightarrow> string \<Rightarrow> py_error + nat option" where
  "get_iter_by_sid W typ sd =
    (if model W = [] then Inr None
     else (case typ of
             None \<Rightarrow> Inl TypeError
           | Some t \<Rightarrow> Inr (first_index (\<lambda>rw. r_sid rw = Some (t @ sd)) (model W))))"

text \<open>
  \<open>set_status\<close>. The timer that advances the pulse of a row in state \<open>computing\<close> is not
  modelled.
\<close>

definition set_status :: "ft_window \<Rightarrow> nat option \<Rightarrow> string \<Rightarrow> ft_window result" where
  "set_status W ref status =
    (case deref W ref of
       None \<Rightarrow> Raise AttributeError W
     | Some fp \<Rightarrow>
        (case get_iter_by_sid W (type_fp fp) (sid fp) of
           Inl e \<Rightarrow> Raise e W
         | Inr None \<Rightarrow> Ok W
         | Inr (Some iter) \<Rightarrow>
            (let W = (if status = ''stop''
                      then update_prop (the ref) (\<lambda>fp. fp\<lparr>stopped := True\<rparr>) W
                      else if status = ''ok''
                      then update_row iter (\<lambda>rw. rw\<lparr>r_pulse := Some MAXINT32\<rparr>)
                             (update_prop (the ref) (\<lambda>fp. fp\<lparr>completed := True\<rparr>) W)
                      else if status = ''computing''
                      then update_row iter (\<lambda>rw. rw\<lparr>r_pulse := Some 1\<rparr>) W
                      else if status = ''hash_error''
                      then update_row iter (\<lambda>rw. rw\<lparr>r_pulse := Some MAXINT32\<rparr>) W
                      else W)
             in (case map_of icons status of
                   None \<Rightarrow> Raise KeyError W
                 | Some icon \<Rightarrow> Ok (update_row iter (\<lambda>rw. rw\<lparr>r_image := Some icon\<rparr>) W)))))"

text \<open>
  The status that \<open>set_progress\<close> guesses for the status image: download or upload by
  the type, overwritten by pause or else waiting, overwritten by stop.
\<close>

definition derived_status :: "file_props \<Rightarrow> string" where
  "derived_status fp =
    (let status = (if type_fp fp = Some ''r'' then ''download'' else ''upload'');
         status = (if paused fp then ''pause''
                   else if stalled fp then ''waiting'' else status);
         status = (if \<not> connected fp then ''stop'' else status)
     in status)"

text \<open>
  \<open>set_progress\<close>. Without a row nothing happens. With a row (\<open>show_progress\<close>) the
  offset is taken off, a sample is appended when \<open>elapsed_time\<close> is positive, the
  oldest sample is dropped when there are more than six (\<open>retained_samples\<close>), the
  TIME column gets the estimate, the IMAGE column the icon of the guessed status, and
  when all is transferred \<open>set_status\<close> is called with \<open>computing\<close> or \<open>ok\<close>.
\<close>

definition retained_samples :: "file_props \<Rightarrow> int \<Rightarrow> (rat \<times> int) list" where
  "retained_samples fp transfered =
    (let samples = (if 0 < elapsed_time fp
                    then transfered_size fp @ [(last_time fp, transfered)]
                    else transfered_size fp)
     in if 6 < length samples then tl samples else samples)"

definition show_progress :: "ft_window \<Rightarrow> nat \<Rightarrow> nat \<Rightarrow> int \<Rightarrow> ft_window result" where
  "show_progress W i iter transfered =
    (let fp = files_prop W ! i;
         full_size = size_fp fp;
         transfered = (if offset fp \<noteq> 0 then transfered - offset fp else transfered);
         full_size = (if offset fp \<noteq> 0 then full_size - offset fp else full_size);
         fp = fp\<lparr>transfered_size := retained_samples fp transfered\<rparr>;
         W = update_prop i (\<lambda>_. fp) W
     in (case get_eta_and_speed full_size transfered fp of
           Inl e \<Rightarrow> Raise e W
         | Inr estimate \<Rightarrow>
            (let W = update_row iter (\<lambda>rw. rw\<lparr>r_time := Some estimate\<rparr>) W
             in (case map_of icons (derived_status fp) of
                   None \<Rightarrow> Raise KeyError W
                 | Some icon \<Rightarrow>
                    (let W = update_row iter (\<lambda>rw. rw\<lparr>r_image := Some icon\<rparr>) W
                     in if transfered = full_size
                        then (if type_fp fp = Some ''r''
                                 \<and> session_type fp = Some ''jingle''
                                 \<and> truthy (hash_fp fp)
                              then set_status W (Some i) ''computing''
                              else set_status W (Some i) ''ok'')
                        else Ok W)))))"

definition set_progress :: "ft_window \<Rightarrow> string option \<Rightarrow> string \<Rightarrow> int \<Rightarrow> nat option
    \<Rightarrow> ft_window result" where
  "set_progress W typ sd transfered iter_arg =
    (case getFilePropByType (files_prop W) typ sd of
       None \<Rightarrow> Raise AttributeError W
     | Some i \<Rightarrow>
        (case (case iter_arg of
                 Some iter \<Rightarrow> Inr (Some iter)
               | None \<Rightarrow> get_iter_by_sid W typ sd) of
           Inl e \<Rightarrow> Raise e W
         | Inr None \<Rightarrow> Ok W
         | Inr (Some iter) \<Rightarrow> show_progress W i iter transfered))"

text \<open>
  \<open>on_pause_restore_button_clicked\<close>; \<open>now\<close> is what \<open>time.time()\<close> returns. The row's
  SID is split into its first character and the rest.
\<close>

definition types :: "(string \<times> string) list" where
  "types = [(''r'', ''download''), (''s'', ''upload'')]"

definition on_pause_restore_button_clicked :: "ft_env \<Rightarrow> rat \<Rightarrow> ft_window \<Rightarrow> ft_window result" where
  "on_pause_restore_button_clicked E now W =
    (case selected W of
       None \<Rightarrow> Ok W
     | Some s_iter \<Rightarrow>
        if length (model W) \<le> s_iter then Ok W
        else
        (case r_sid (model W ! s_iter) of
           None \<Rightarrow> Raise TypeError W
         | Some sd \<Rightarrow>
            if sd = [] then Raise IndexError W
            else
            (let ref = getFilePropByType (files_prop W) (Some [hd sd]) (tl sd)
             in if is_transfer_paused E (deref W ref)
                then (case ref of
                        None \<Rightarrow> Raise AttributeError W
                      | Some i \<Rightarrow>
                         (let W = update_prop i (\<lambda>fp. fp\<lparr>last_time := now\<rparr>) W;
                              W = update_prop i (\<lambda>fp. fp\<lparr>paused := False\<rparr>) W
                          in (case map_of types [hd sd] of
                                None \<Rightarrow> Raise KeyError W
                              | Some status \<Rightarrow>
                                 bind_result (set_status W ref status) (\<lambda>W.
                                   if continue_cb (files_prop W ! i)
                                   then Ok (W\<lparr>continue_cb_calls := continue_cb_calls W @ [i]\<rparr>)
                                   else Ok W))))
                else if is_transfer_active E (deref W ref)
                then (case ref of
                        None \<Rightarrow> Raise AttributeError W
                      | Some i \<Rightarrow>
                         (let W = update_prop i (\<lambda>fp. fp\<lparr>paused := True\<rparr>) W
                          in bind_result (set_status W ref ''pause'') (\<lambda>W.
                               Ok (update_prop i (\<lambda>fp. fp\<lparr>transfered_size := []\<rparr>) W))))
                else Ok W)))"

text \<open>
  \<open>add_transfer\<close>. The new row is put in front of the others, so the selected row moves
  down by one. The texts of the row need the file's name and the contact's shown name:
  a missing name of a file that is not received raises TypeError in
  \<open>markup_escape_text\<close>, a missing contact raises AttributeError, and a missing type
  raises TypeError in \<open>type_ + sid\<close>.
\<close>

definition add_transfer :: "ft_window \<Rightarrow> string \<Rightarrow> contact option \<Rightarrow> nat option
    \<Rightarrow> ft_window result" where
  "add_transfer W acct cont ref =
    (case deref W ref of
       None \<Rightarrow> Ok W
     | Some _ \<Rightarrow>
        (let i = the ref;
             W = update_prop i (\<lambda>fp. fp\<lparr>elapsed_time := 0\<rparr>) W;
             W = W\<lparr>model := empty_row # model W, selected := map_option Suc (selected W)\<rparr>;
             fp = files_prop W ! i
         in if type_fp fp \<noteq> Some ''r'' \<and> name fp = None then Raise TypeError W
            else
            (case cont of
               None \<Rightarrow> Raise AttributeError W
             | Some c \<Rightarrow>
                (case type_fp fp of
                   None \<Rightarrow> Raise TypeError W
                 | Some t \<Rightarrow>
                    (let W = update_row 0
                               (\<lambda>rw. rw\<lparr>r_pulse := Some (- 1), r_sid := Some (t @ sid fp)\<rparr>) W
                     in bind_result (set_progress W (type_fp fp) (sid fp) 0 (Some 0)) (\<lambda>W.
                          (let status = (if \<not> started (files_prop W ! i) then ''waiting''
                                         else if type_fp (files_prop W ! i) = Some ''r''
                                         then ''download'' else ''upload'');
                               W = update_prop i (\<lambda>fp. fp\<lparr>tt_account := Some acct\<rparr>) W
                           in set_status W ref status)))))))"

text \<open>
  \<open>on_yes\<close> of \<open>show_hash_error\<close>: the answer to the question whether a damaged file
  shall be downloaded again. \<open>os.remove\<close> raises FileNotFoundError when the file does
  not exist, \<open>contact.get_full_jid()\<close> raises AttributeError when no contact was found
  and \<open>app.connections[account]\<close> raises KeyError for an account without connection.
\<close>

definition on_yes :: "ft_env \<Rightarrow> ft_window \<Rightarrow> string \<Rightarrow> file_props \<Rightarrow> string
    \<Rightarrow> ft_window result" where
  "on_yes E W fjid fp acct =
    (if file_name fp \<notin> files W then Raise FileNotFoundError W
     else
      (let W = W\<lparr>files := files W - {file_name fp}\<rparr>;
           (jid, resource) = get_room_and_nick_from_fjid E fjid;
           cont = (if resource \<noteq> [] then get_contact E acct jid resource
                   else get_contact_with_highest_priority E acct jid)
       in if resource = [] \<and> cont = None then Raise AttributeError W
          else
          (let fjid = (if resource \<noteq> [] then fjid else full_jid (the cont));
               sd = get_random_string_16 E;
               (i, W) = getNewFileProp acct sd W;
               W = update_prop i (\<lambda>new. new\<lparr>file_name := file_name fp\<rparr>) W;
               W = update_prop i (\<lambda>new. new\<lparr>name := name fp\<rparr>) W;
               W = update_prop i (\<lambda>new. new\<lparr>desc := desc fp\<rparr>) W;
               W = update_prop i (\<lambda>new. new\<lparr>size_fp := size_fp fp\<rparr>) W;
               W = update_prop i (\<lambda>new. new\<lparr>date := date fp\<rparr>) W;
               W = update_prop i (\<lambda>new. new\<lparr>hash_fp := hash_fp fp\<rparr>) W;
               W = update_prop i (\<lambda>new. new\<lparr>type_fp := Some ''r''\<rparr>) W
           in if acct \<notin> connections E then Raise KeyError W
              else
              (let tsid = start_file_transfer E acct fjid (files_prop W ! i) True;
                   W = W\<lparr>start_file_transfer_calls :=
                          start_file_transfer_calls W @ [(acct, fjid, files_prop W ! i, True)]\<rparr>;
                   W = update_prop i (\<lambda>new. new\<lparr>transport_sid := tsid\<rparr>) W
               in add_transfer W acct cont (Some i)))))"

section \<open>Sequences of dispatch calls and example objects\<close>

text \<open>
  A sequence of \<open>on_stanza\<close> calls on one content, each with its action and its
  \<open>content\<close> node. A call that raised leaves the objects as they were at the raise, and
  the next call goes on from there.
\<close>

fun dispatch_all :: "env \<Rightarrow> (string \<times> xml option) list \<Rightarrow> world \<Rightarrow> world" where
  "dispatch_all E [] w = w"
| "dispatch_all E ((action, content) # rest) w =
    dispatch_all E rest (fst (state_of (on_stanza E action (w, content))))"

definition negotiated_implies_accepted :: "jingle_content \<Rightarrow> bool" where
  "negotiated_implies_accepted c = (negotiated c \<longrightarrow> accepted c)"

text \<open>The tag names of the children of the \<open>content\<close> node that a handler returned.\<close>

fun content_kids :: "hstate result \<Rightarrow> string list" where
  "content_kids (Ok (w, Some c)) = map tag (kids c)"
| "content_kids _ = []"

text \<open>\<open>precedes a b xs\<close>: \<open>a\<close> occurs in \<open>xs\<close> and \<open>b\<close> occurs after its first occurrence.\<close>

definition precedes :: "'a \<Rightarrow> 'a \<Rightarrow> 'a list \<Rightarrow> bool" where
  "precedes a b xs = (b \<in> set (drop 1 (dropWhile (\<lambda>x. x \<noteq> a) xs)))"

text \<open>The actions whose handler list in \<open>__init__\<close> holds the fill-stanza handler.\<close>

definition fill_actions :: "string set" where
  "fill_actions = {''content-accept-sent'', ''content-add-sent'',
                   ''session-initiate-sent'', ''session-accept-sent''}"

definition example_cert :: cert where
  "example_cert = \<lparr>get_signature_algorithm = ''sha256WithRSAEncryption'',
                    digest = (\<lambda>a. ''AB:CD'')\<rparr>"

definition example_hash :: xml where
  "example_hash = Node ''hash'' (Some HASHES_2) [(''algo'', PStr ''sha-256'')] [''0a1b''] []"

definition example_env :: env where
  "example_env =
    \<lparr>make_transport = (\<lambda>t cands add. Node ''transport'' None [] [] []),
     parse_transport_stanza = (\<lambda>t n. []),
     compute_hash = (\<lambda>fp. (Some example_hash, fp\<lparr>hash_fp := Some ''0a1b''\<rparr>)),
     load_cert_file = Some example_cert,
     get_jid_without_resource = takeWhile (\<lambda>c. c \<noteq> CHR ''/'')\<rparr>"

definition example_file :: "int \<Rightarrow> file_props" where
  "example_file n =
    \<lparr>sid = ''s1'', account = ''me'', name = Some ''a.bin'', file_name = ''/tmp/a.bin'',
     date = None, desc = None, size_fp = n, type_fp = Some ''s'', hash_fp = None,
     algo = Some ''sha-256'', offset = 0, session_type = Some ''jingle'',
     transport_sid = None, tt_account = None, elapsed_time = 0, last_time = 0,
     transfered_size = [], started = False, paused = False, stalled = False,
     connected = True, stopped = False, completed = False, continue_cb = False\<rparr>"

definition example_session :: jingle_session where
  "example_session =
    \<lparr>contents = {(Some ''initiator'', Some ''file1'')}, peerjid = ''a@b/c'',
     content_negotiated = [], send_transport_info = [], send_description_info = [],
     set_file_info = []\<rparr>"

definition example_world :: "bool \<Rightarrow> bool \<Rightarrow> world" where
  "example_world acc neg =
    \<lparr>self = (init_content (Some \<lparr>remote_candidates = []\<rparr>) None)
       \<lparr>creator := Some ''initiator'', cname := Some ''file1'', accepted := acc,
        negotiated := neg, media := Some ''file'',
        file_props := Some (example_file 8000000), use_security := Some True\<rparr>,
     session = example_session\<rparr>"

definition example_node :: xml where
  "example_node = Node ''content'' None
     [(''name'', PStr ''file1''), (''creator'', PStr ''initiator''),
      (''senders'', PStr ''both'')] [] []"

lemmas example_defs = example_world_def example_session_def example_file_def
  example_env_def example_cert_def example_hash_def example_node_def
  init_content_def init_callbacks_def

lemmas handler_defs = on_transport_info_def on_content_accept_def on_transport_replace_def
  fill_jingle_stanza_def fill_content_def on_negotiated_def add_remote_candidates_def





text \<open>
  A content as \<open>__init__\<close> leaves it (no file properties yet), and a content whose
  transport is missing.
\<close>

definition example_fresh_world :: world where
  "example_fresh_world =
    \<lparr>self = init_content (Some \<lparr>remote_candidates = []\<rparr>) None,
     session = example_session\<rparr>"

definition example_no_transport_world :: world where
  "example_no_transport_world =
    (example_world True False)\<lparr>self := (self (example_world True False))
       \<lparr>transport := None\<rparr>\<rparr>"



text \<open>
  Example parameters: a transfer counts as paused or active by its flags, the full jid
  is split at the slash, every contact is known, and the account \<open>me\<close> has a
  connection.
\<close>

definition example_ft_env :: ft_env where
  "example_ft_env =
    \<lparr>is_transfer_paused =
       (\<lambda>fp. case fp of None \<Rightarrow> False
              | Some p \<Rightarrow> paused p \<and> \<not> stopped p \<and> \<not> completed p),
     is_transfer_active =
       (\<lambda>fp. case fp of None \<Rightarrow> False
              | Some p \<Rightarrow> started p \<and> \<not> stopped p \<and> \<not> completed p),
     get_room_and_nick_from_fjid =
       (\<lambda>j. (takeWhile (\<lambda>c. c \<noteq> CHR ''/'') j,
              drop 1 (dropWhile (\<lambda>c. c \<noteq> CHR ''/'') j))),
     get_contact =
       (\<lambda>a j r. Some \<lparr>shown_name = ''Bob'', full_jid = j @ ''/'' @ r\<rparr>),
     get_contact_with_highest_priority =
       (\<lambda>a j. Some \<lparr>shown_name = ''Bob'', full_jid = j @ ''/home''\<rparr>),
     get_random_string_16 = ''0123456789abcdef'',
     connections = {''me''},
     start_file_transfer = (\<lambda>a j fp request. Some ''t1'')\<rparr>"

section \<open>Properties of the content state machine\<close>

lemma call_accepted:
  "accepted (self (fst (state_of (call E cb s)))) = accepted (self (fst s))"
  by (cases cb; cases s)
     (auto simp: handler_defs Let_def split: option.splits prod.splits)

lemma call_negotiated:
  "negotiated (self (fst (state_of (call E cb s)))) \<Longrightarrow>
     negotiated (self (fst s)) \<or> accepted (self (fst s))"
  by (cases cb; cases s)
     (auto simp: handler_defs Let_def split: option.splits prod.splits if_splits)

lemma run_callbacks_accepted:
  "accepted (self (fst (state_of (run_callbacks E cbs s)))) = accepted (self (fst s))"
proof (induction cbs arbitrary: s)
  case Nil
  show ?case by simp
next
  case (Cons cb cbs)
  show ?case
  proof (cases "call E cb s")
    case (Ok s')
    with call_accepted [of E cb s] Cons.IH [of s'] show ?thesis by simp
  next
    case (Raise e s')
    with call_accepted [of E cb s] show ?thesis by simp
  qed
qed

lemma run_callbacks_negotiated:
  "negotiated (self (fst (state_of (run_callbacks E cbs s)))) \<Longrightarrow>
     negotiated (self (fst s)) \<or> accepted (self (fst s))"
proof (induction cbs arbitrary: s)
  case Nil
  then show ?case by simp
next
  case (Cons cb cbs)
  show ?case
  proof (cases "call E cb s")
    case (Ok s')
    with Cons.prems have "negotiated (self (fst (state_of (run_callbacks E cbs s'))))"
      by simp
    then have "negotiated (self (fst s')) \<or> accepted (self (fst s'))"
      by (rule Cons.IH)
    with Ok call_accepted [of E cb s] call_negotiated [of E cb s] show ?thesis
      by auto
  next
    case (Raise e s')
    with Cons.prems call_negotiated [of E cb s] show ?thesis by simp
  qed
qed

lemma on_stanza_accepted:
  "accepted (self (fst (state_of (on_stanza E a s)))) = accepted (self (fst s))"
  by (simp add: on_stanza_def run_callbacks_accepted split: option.splits)

lemma on_stanza_negotiated:
  "negotiated (self (fst (state_of (on_stanza E a s)))) \<Longrightarrow>
     negotiated (self (fst s)) \<or> accepted (self (fst s))"
  by (auto simp: on_stanza_def split: option.splits dest: run_callbacks_negotiated)

lemma on_stanza_invariant:
  "negotiated_implies_accepted (self (fst s)) \<Longrightarrow>
     negotiated_implies_accepted (self (fst (state_of (on_stanza E a s))))"
  unfolding negotiated_implies_accepted_def
  using on_stanza_accepted [of E a s] on_stanza_negotiated [of E a s] by blast

lemma dispatch_all_invariant:
  "negotiated_implies_accepted (self w) \<Longrightarrow>
     negotiated_implies_accepted (self (dispatch_all E acts w))"
proof (induction acts arbitrary: w)
  case Nil
  then show ?case by simp
next
  case (Cons act acts)
  obtain a c where act: "act = (a, c)" by (cases act)
  from Cons.prems on_stanza_invariant [of "(w, c)" E a]
  have "negotiated_implies_accepted (self (fst (state_of (on_stanza E a (w, c)))))"
    by simp
  then show ?case using Cons.IH act by simp
qed

text \<open>
  C8. The content of \<open>__init__\<close> has \<open>negotiated\<close> false; a dispatch call never changes
  \<open>accepted\<close>, and it leaves \<open>negotiated\<close> true only if \<open>negotiated\<close> or \<open>accepted\<close> was
  true before it; hence after any sequence of dispatch calls, raising or not, from a
  state where \<open>negotiated\<close> implies \<open>accepted\<close>, \<open>negotiated\<close> still implies \<open>accepted\<close>.
\<close>

theorem negotiated_implies_accepted_invariant:
  "negotiated_implies_accepted (init_content tr sndrs)
   \<and> accepted (self (fst (state_of (on_stanza E a s)))) = accepted (self (fst s))
   \<and> (negotiated (self (fst (state_of (on_stanza E a s)))) \<longrightarrow>
        negotiated (self (fst s)) \<or> accepted (self (fst s)))
   \<and> (negotiated_implies_accepted (self w) \<longrightarrow>
        negotiated_implies_accepted (self (dispatch_all E acts w)))"
  using on_stanza_accepted [of E a s] on_stanza_negotiated [of E a s]
    dispatch_all_invariant [of w E acts]
  by (auto simp: negotiated_implies_accepted_def init_content_def)

theorem negotiated_implies_accepted_invariant_witness:
  "negotiated_implies_accepted (self (example_world True False))
   \<and> negotiated (self (dispatch_all example_env
        [(''session-initiate'', Some example_node), (''session-accept'', Some example_node)]
        (example_world True False)))
   \<and> negotiated_implies_accepted (self (dispatch_all example_env
        [(''session-initiate'', Some example_node), (''session-accept'', Some example_node)]
        (example_world True False)))"
proof -
  have h: "negotiated_implies_accepted (self (example_world True False))"
    by (simp add: negotiated_implies_accepted_def example_defs)
  have n: "negotiated (self (dispatch_all example_env
        [(''session-initiate'', Some example_node), (''session-accept'', Some example_node)]
        (example_world True False)))"
    by (simp add: example_defs on_stanza_def handler_defs getTag_def)
  from h n negotiated_implies_accepted_invariant [of None None example_env "''x''"
      "(example_world True False, None)" "example_world True False"
      "[(''session-initiate'', Some example_node), (''session-accept'', Some example_node)]"]
  show ?thesis by blast
qed

lemma fill_content_sent:
  "sent (self (fst (state_of (fill_content E s)))) = sent (self (fst s))"
  by (cases s) (auto simp: fill_content_def Let_def split: option.splits prod.splits)

lemma fill_jingle_stanza_sent:
  "sent (self (fst (state_of (fill_jingle_stanza E s)))) =
     (sent (self (fst s)) \<or> is_ok (fill_content E s))"
proof (cases "fill_content E s")
  case (Ok s')
  with fill_content_sent [of E s] show ?thesis
    by (cases s') (auto simp: fill_jingle_stanza_def Let_def split: option.splits)
next
  case (Raise e s')
  with fill_content_sent [of E s] show ?thesis
    by (simp add: fill_jingle_stanza_def)
qed

lemma call_sent:
  "cb \<noteq> Fill_jingle_stanza \<Longrightarrow>
     sent (self (fst (state_of (call E cb s)))) = sent (self (fst s))"
  by (cases cb; cases s)
     (auto simp: on_transport_info_def on_content_accept_def on_transport_replace_def
        on_negotiated_def add_remote_candidates_def Let_def split: option.splits)

lemma call_sent_mono:
  "sent (self (fst s)) \<Longrightarrow> sent (self (fst (state_of (call E cb s))))"
  using call_sent [of cb E s] fill_jingle_stanza_sent [of E s] by (cases cb) auto

lemma run_callbacks_sent:
  "sent (self (fst (state_of (run_callbacks E cbs s)))) \<Longrightarrow>
     sent (self (fst s)) \<or> Fill_jingle_stanza \<in> set cbs"
proof (induction cbs arbitrary: s)
  case Nil
  then show ?case by simp
next
  case (Cons cb cbs)
  show ?case
  proof (cases "cb = Fill_jingle_stanza")
    case True
    then show ?thesis by simp
  next
    case False
    note sent_same = call_sent [OF False, of E s]
    show ?thesis
    proof (cases "call E cb s")
      case (Ok s')
      with Cons.prems have "sent (self (fst (state_of (run_callbacks E cbs s'))))"
        by simp
      then have "sent (self (fst s')) \<or> Fill_jingle_stanza \<in> set cbs"
        by (rule Cons.IH)
      with Ok sent_same show ?thesis by auto
    next
      case (Raise e s')
      with Cons.prems sent_same show ?thesis by simp
    qed
  qed
qed

lemma on_stanza_sent_only_by_fill:
  "sent (self (fst (state_of (on_stanza E a s)))) \<Longrightarrow> \<not> sent (self (fst s)) \<Longrightarrow>
     \<exists>cbs hs. callbacks (self (fst s)) = Some cbs \<and> map_of cbs a = Some hs
       \<and> Fill_jingle_stanza \<in> set hs"
  by (auto simp: on_stanza_def split: option.splits dest: run_callbacks_sent)

lemma on_content_accept_sent:
  "sent (self (fst (state_of (bind_result r on_content_accept)))) =
     sent (self (fst (state_of r)))"
  by (cases r) (auto simp: on_content_accept_def on_negotiated_def split: if_splits)

lemma bind_run_callbacks_Nil: "bind_result r (run_callbacks E []) = r"
  by (cases r) auto

lemma on_stanza_init_sent:
  assumes "callbacks (self (fst s)) = Some init_callbacks"
  shows "sent (self (fst (state_of (on_stanza E a s)))) =
     (sent (self (fst s)) \<or> a \<in> fill_actions \<and> is_ok (fill_content E s))"
proof (cases "map_of init_callbacks a")
  case None
  then have "a \<notin> fill_actions"
    by (auto simp: init_callbacks_def fill_actions_def)
  with None assms show ?thesis by (simp add: on_stanza_def)
next
  case (Some hs)
  then have "(a \<in> fill_actions \<and> (hs = [Fill_jingle_stanza] \<or>
                  hs = [Fill_jingle_stanza, On_content_accept]))
             \<or> (a \<notin> fill_actions \<and> Fill_jingle_stanza \<notin> set hs)"
    by (auto simp: init_callbacks_def fill_actions_def split: if_splits)
  then show ?thesis
  proof
    assume f: "a \<in> fill_actions \<and> (hs = [Fill_jingle_stanza] \<or>
                  hs = [Fill_jingle_stanza, On_content_accept])"
    have r: "run_callbacks E hs s = fill_jingle_stanza E s
             \<or> run_callbacks E hs s = bind_result (fill_jingle_stanza E s) on_content_accept"
    proof (cases "fill_jingle_stanza E s")
      case (Ok s')
      with f show ?thesis by (auto simp: bind_run_callbacks_Nil)
    next
      case (Raise e s')
      with f show ?thesis by auto
    qed
    from r f assms Some fill_jingle_stanza_sent [of E s]
      on_content_accept_sent [of "fill_jingle_stanza E s"]
    show ?thesis by (auto simp: on_stanza_def)
  next
    assume nf: "a \<notin> fill_actions \<and> Fill_jingle_stanza \<notin> set hs"
    have "sent (self (fst (state_of (run_callbacks E hs s)))) = sent (self (fst s))"
      using nf
    proof (induction hs arbitrary: s)
      case Nil
      show ?case by simp
    next
      case (Cons h hs)
      then have h: "h \<noteq> Fill_jingle_stanza" by auto
      show ?case
      proof (cases "call E h s")
        case (Ok s')
        with call_sent [OF h, of E s] Cons.IH [of s'] Cons.prems show ?thesis by simp
      next
        case (Raise e s')
        with call_sent [OF h, of E s] show ?thesis by simp
      qed
    qed
    with nf assms Some show ?thesis by (simp add: on_stanza_def)
  qed
qed

lemma other_operations_sent:
  "sent (self (on_negotiated w)) = sent (self w)"
  "sent (self (state_of (add_remote_candidates cands w))) = sent (self w)"
  "sent (self (state_of (send_candidate E cand w))) = sent (self w)"
  "sent (self (state_of (send_error_candidate E w))) = sent (self w)"
  "sent (self (state_of (destroy w))) = sent (self w)"
  by (auto simp: on_negotiated_def add_remote_candidates_def send_candidate_def
        send_error_candidate_def destroy_def Let_def split: option.splits)

lemma send_description_info_sent:
  "sent (self (state_of (send_description_info_op E w))) = sent (self w)"
proof -
  let ?s = "(w, Some (content_node (self w)))"
  show ?thesis
  proof (cases "fill_content E ?s")
    case (Ok s')
    with fill_content_sent [of E ?s] show ?thesis
      by (cases s') (auto simp: send_description_info_op_def split: option.splits)
  next
    case (Raise e s')
    with fill_content_sent [of E ?s] show ?thesis
      by (cases s') (auto simp: send_description_info_op_def)
  qed
qed

lemma fill_jingle_stanza_ok:
  "is_ok (fill_jingle_stanza E s) \<Longrightarrow> is_ok (fill_content E s)"
  by (cases "fill_content E s") (simp_all add: fill_jingle_stanza_def)

lemma fill_jingle_stanza_raise:
  "\<not> is_ok (fill_content E s) \<Longrightarrow> fill_jingle_stanza E s = fill_content E s"
  by (cases "fill_content E s") (simp_all add: fill_jingle_stanza_def)

text \<open>
  C9, as the code has it. The fill-stanza handler assigns \<open>sent\<close> after
  \<open>_fill_content\<close> and before it appends the transport. So after the handler \<open>sent\<close>
  is true exactly when it was true before or \<open>_fill_content\<close> returned: a handler
  that returns has set it, a handler that raises in \<open>_fill_content\<close> has changed
  nothing of \<open>sent\<close>, and a handler that raises at the transport has set it. Every
  other handler leaves \<open>sent\<close> as it is, and so do \<open>on_negotiated\<close>,
  \<open>add_remote_candidates\<close>, \<open>send_candidate\<close>, \<open>send_error_candidate\<close>,
  \<open>send_description_info\<close> and \<open>destroy\<close>. A dispatch call turns \<open>sent\<close> true only for
  an action whose handler list holds the fill-stanza handler, and with the table of
  \<open>__init__\<close> it leaves \<open>sent\<close> true exactly when \<open>sent\<close> was true or the action is
  one of the four sent-actions with that handler and \<open>_fill_content\<close> returned.
\<close>

theorem sent_iff_fill_jingle_stanza:
  "sent (self (fst (state_of (fill_jingle_stanza E s)))) =
     (sent (self (fst s)) \<or> is_ok (fill_content E s))
   \<and> (cb \<noteq> Fill_jingle_stanza \<longrightarrow>
        sent (self (fst (state_of (call E cb s)))) = sent (self (fst s)))
   \<and> (sent (self (fst (state_of (on_stanza E a s)))) \<and> \<not> sent (self (fst s)) \<longrightarrow>
        (\<exists>cbs hs. callbacks (self (fst s)) = Some cbs \<and> map_of cbs a = Some hs
           \<and> Fill_jingle_stanza \<in> set hs))
   \<and> (callbacks (self (fst s)) = Some init_callbacks \<longrightarrow>
        sent (self (fst (state_of (on_stanza E a s)))) =
          (sent (self (fst s)) \<or> a \<in> fill_actions \<and> is_ok (fill_content E s)))
   \<and> sent (self (on_negotiated w)) = sent (self w)
   \<and> sent (self (state_of (add_remote_candidates cands w))) = sent (self w)
   \<and> sent (self (state_of (send_candidate E cand w))) = sent (self w)
   \<and> sent (self (state_of (send_error_candidate E w))) = sent (self w)
   \<and> sent (self (state_of (send_description_info_op E w))) = sent (self w)
   \<and> sent (self (state_of (destroy w))) = sent (self w)
   \<and> (is_ok (fill_jingle_stanza E s) \<longrightarrow>
        sent (self (fst (state_of (fill_jingle_stanza E s)))))
   \<and> (\<not> is_ok (fill_content E s) \<longrightarrow>
        fill_jingle_stanza E s = fill_content E s
        \<and> sent (self (fst (state_of (fill_jingle_stanza E s)))) = sent (self (fst s)))"
  using fill_jingle_stanza_sent [of E s] call_sent [of cb E s]
    on_stanza_sent_only_by_fill [of E a s] on_stanza_init_sent [of s E a]
    send_description_info_sent [of E w] fill_jingle_stanza_ok [of E s]
    fill_jingle_stanza_raise [of E s]
  by (simp add: other_operations_sent fill_content_sent)

theorem sent_iff_fill_jingle_stanza_witness:
  "callbacks (self (example_world True False)) = Some init_callbacks
   \<and> \<not> sent (self (example_world True False))
   \<and> ''session-initiate-sent'' \<in> fill_actions
   \<and> is_ok (fill_content example_env (example_world True False, Some example_node))
   \<and> is_ok (fill_jingle_stanza example_env (example_world True False, Some example_node))
   \<and> sent (self (fst (state_of (on_stanza example_env ''session-initiate-sent''
        (example_world True False, Some example_node)))))
   \<and> On_transport_info \<noteq> Fill_jingle_stanza
   \<and> \<not> sent (self (fst (state_of (call example_env On_transport_info
        (example_world True False, Some example_node)))))
   \<and> \<not> is_ok (fill_content example_env (example_fresh_world, Some example_node))
   \<and> \<not> sent (self example_fresh_world)
   \<and> \<not> sent (self (fst (state_of (fill_jingle_stanza example_env
        (example_fresh_world, Some example_node)))))
   \<and> is_ok (fill_content example_env (example_no_transport_world, Some example_node))
   \<and> \<not> is_ok (fill_jingle_stanza example_env
        (example_no_transport_world, Some example_node))
   \<and> \<not> sent (self example_no_transport_world)
   \<and> sent (self (fst (state_of (fill_jingle_stanza example_env
        (example_no_transport_world, Some example_node)))))"
proof -
  let ?s = "(example_world True False, Some example_node)"
  let ?f = "(example_fresh_world, Some example_node)"
  let ?n = "(example_no_transport_world, Some example_node)"
  have c: "callbacks (self (fst ?s)) = Some init_callbacks"
    by (simp add: example_world_def init_content_def)
  have n: "\<not> sent (self (fst ?s))" "\<not> sent (self (fst ?f))" "\<not> sent (self (fst ?n))"
    by (simp_all add: example_world_def example_fresh_world_def
          example_no_transport_world_def init_content_def)
  have a: "''session-initiate-sent'' \<in> fill_actions"
    by (simp add: fill_actions_def)
  have f: "is_ok (fill_content example_env ?s)"
    "\<not> is_ok (fill_content example_env ?f)"
    "is_ok (fill_content example_env ?n)"
    by (simp_all add: example_defs example_fresh_world_def example_no_transport_world_def
          fill_content_def file_tag_of_def Let_def)
  have j: "is_ok (fill_jingle_stanza example_env ?s)"
    "\<not> is_ok (fill_jingle_stanza example_env ?n)"
    by (simp_all add: example_defs example_no_transport_world_def
          fill_jingle_stanza_def fill_content_def file_tag_of_def Let_def)
  from c n a f j
    sent_iff_fill_jingle_stanza [of example_env ?s On_transport_info
      "''session-initiate-sent''" "example_world True False" "[]" "[]"]
    sent_iff_fill_jingle_stanza [of example_env ?f On_transport_info
      "''session-initiate-sent''" "example_world True False" "[]" "[]"]
    sent_iff_fill_jingle_stanza [of example_env ?n On_transport_info
      "''session-initiate-sent''" "example_world True False" "[]" "[]"]
  show ?thesis by (simp add: fill_content_sent)
qed

text \<open>
  C9, counterexample. A content as \<open>__init__\<close> leaves it gets content-add-sent: the
  fill-stanza handler is the handler of that action and it is called, it raises
  AttributeError at the first read of the missing file properties, and \<open>sent\<close> is
  still false.
\<close>

theorem fill_handler_raises_unsent_counterexample:
  "map_of init_callbacks ''content-add-sent'' = Some [Fill_jingle_stanza]
   \<and> callbacks (self example_fresh_world) = Some init_callbacks
   \<and> call example_env Fill_jingle_stanza (example_fresh_world, Some example_node) =
        Raise AttributeError (example_fresh_world, Some example_node)
   \<and> on_stanza example_env ''content-add-sent'' (example_fresh_world, Some example_node) =
        Raise AttributeError (example_fresh_world, Some example_node)
   \<and> \<not> sent (self (fst (state_of (on_stanza example_env ''content-add-sent''
        (example_fresh_world, Some example_node)))))"
  by (simp add: example_fresh_world_def init_content_def init_callbacks_def on_stanza_def
        fill_jingle_stanza_def fill_content_def)

lemma on_stanza_destroyed:
  "callbacks (self (fst s)) = None \<Longrightarrow> on_stanza E a s = Raise TypeError s"
  by (simp add: on_stanza_def)

lemma dispatch_all_destroyed:
  "callbacks (self w) = None \<Longrightarrow> dispatch_all E acts w = w"
proof (induction acts arbitrary: w)
  case Nil
  show ?case by simp
next
  case (Cons act acts)
  then show ?case by (cases act) (simp add: on_stanza_destroyed)
qed

lemma destroy_callbacks: "callbacks (self (state_of (destroy w))) = None"
  by (simp add: destroy_def Let_def)

text \<open>
  C10. \<open>destroy\<close> leaves \<open>callbacks\<close> at \<open>None\<close>, whether or not the \<open>del\<close> raised; when
  the key \<open>(creator, name)\<close> is in the session's \<open>contents\<close>, \<open>destroy\<close> returns and the
  key is gone, the other keys stay. From then on every \<open>on_stanza\<close> call raises
  TypeError, for every action and every \<open>content\<close> node, after any number of further
  dispatch calls, and leaves the objects as \<open>destroy\<close> left them.
\<close>

theorem dispatch_after_destroy_raises:
  "callbacks (self (state_of (destroy w))) = None
   \<and> ((creator (self w), cname (self w)) \<in> contents (session w) \<longrightarrow>
        is_ok (destroy w)
        \<and> contents (session (state_of (destroy w))) =
            contents (session w) - {(creator (self w), cname (self w))})
   \<and> dispatch_all E acts (state_of (destroy w)) = state_of (destroy w)
   \<and> on_stanza E a (dispatch_all E acts (state_of (destroy w)), content) =
        Raise TypeError (state_of (destroy w), content)"
  using dispatch_all_destroyed [OF destroy_callbacks, of E acts w]
    on_stanza_destroyed [of "(state_of (destroy w), content)" E a] destroy_callbacks [of w]
  by (simp add: destroy_def Let_def)

theorem dispatch_after_destroy_raises_witness:
  "(creator (self (example_world True True)), cname (self (example_world True True)))
     \<in> contents (session (example_world True True))
   \<and> is_ok (destroy (example_world True True))
   \<and> contents (session (state_of (destroy (example_world True True)))) = {}
   \<and> on_stanza example_env ''session-terminate''
        (state_of (destroy (example_world True True)), None) =
      Raise TypeError (state_of (destroy (example_world True True)), None)"
proof -
  have k: "(creator (self (example_world True True)), cname (self (example_world True True)))
     \<in> contents (session (example_world True True))"
    by (simp add: example_defs)
  have e: "contents (session (example_world True True))
      - {(creator (self (example_world True True)), cname (self (example_world True True)))}
      = {}"
    by (simp add: example_defs)
  from k e dispatch_after_destroy_raises [of "example_world True True" example_env "[]"
      "''session-terminate''" None]
  show ?thesis by simp
qed


subsection \<open>The accept handler\<close>

lemma on_transport_info_keeps:
  "accepted (self (fst (state_of (on_transport_info E s)))) = accepted (self (fst s))
   \<and> negotiated (self (fst (state_of (on_transport_info E s)))) = negotiated (self (fst s))
   \<and> media (self (fst (state_of (on_transport_info E s)))) = media (self (fst s))
   \<and> session (fst (state_of (on_transport_info E s))) = session (fst s)"
  by (cases s)
     (simp add: on_transport_info_def add_remote_candidates_def Let_def
        split: option.splits)

lemma on_content_accept_effect:
  "is_ok (on_content_accept s)
   \<and> accepted (self (fst (state_of (on_content_accept s)))) = accepted (self (fst s))
   \<and> negotiated (self (fst (state_of (on_content_accept s)))) =
       (negotiated (self (fst s)) \<or> accepted (self (fst s)))
   \<and> content_negotiated (session (fst (state_of (on_content_accept s)))) =
       content_negotiated (session (fst s)) @
         (if accepted (self (fst s)) then [media (self (fst s))] else [])"
  by (cases s) (simp add: on_content_accept_def on_negotiated_def)

lemma on_stanza_accept_notifies:
  assumes "callbacks (self (fst s)) = Some init_callbacks"
    and "a = ''content-accept'' \<or> a = ''session-accept''"
    and "is_ok (on_transport_info E s)"
  shows "content_negotiated (session (fst (state_of (on_stanza E a s)))) =
     content_negotiated (session (fst s)) @
       (if accepted (self (fst s)) then [media (self (fst s))] else [])"
proof -
  from assms(3) obtain s' where s': "on_transport_info E s = Ok s'"
    by (cases "on_transport_info E s") simp_all
  have "map_of init_callbacks a = Some [On_transport_info, On_content_accept]"
    using assms(2) by (elim disjE) (simp_all add: init_callbacks_def)
  hence "on_stanza E a s =
      bind_result (on_transport_info E s) (run_callbacks E [On_content_accept])"
    by (simp add: on_stanza_def assms(1))
  also have "\<dots> = run_callbacks E [On_content_accept] s'"
    by (simp add: s')
  also have "\<dots> = on_content_accept s'"
    by (cases "on_content_accept s'") simp_all
  finally have eq: "on_stanza E a s = on_content_accept s'" .
  have keep: "accepted (self (fst s')) = accepted (self (fst s))"
      "media (self (fst s')) = media (self (fst s))"
      "session (fst s') = session (fst s)"
    using on_transport_info_keeps [of E s] by (simp_all add: s')
  show ?thesis
    using on_content_accept_effect [of s'] by (simp add: eq keep)
qed

lemma on_stanza_accept_handlers:
  assumes "callbacks (self (fst s)) = Some init_callbacks"
    and "a = ''content-accept'' \<or> a = ''session-accept''"
  shows "on_stanza E a s = bind_result (on_transport_info E s) on_content_accept"
proof -
  have "map_of init_callbacks a = Some [On_transport_info, On_content_accept]"
    using assms(2) by (elim disjE) (simp_all add: init_callbacks_def)
  hence "on_stanza E a s =
      bind_result (on_transport_info E s) (run_callbacks E [On_content_accept])"
    by (simp add: on_stanza_def assms(1))
  also have "\<dots> = bind_result (on_transport_info E s) on_content_accept"
  proof (cases "on_transport_info E s")
    case (Ok s')
    then show ?thesis by (cases "on_content_accept s'") simp_all
  next
    case (Raise e s')
    then show ?thesis by simp
  qed
  finally show ?thesis .
qed

lemma on_content_accept_not_accepted:
  "\<not> accepted (self (fst s)) \<Longrightarrow> on_content_accept s = Ok s"
  by (cases s) (simp add: on_content_accept_def on_negotiated_def)

lemma on_content_accept_accepted:
  "accepted (self (fst s)) \<Longrightarrow>
     on_content_accept s =
       Ok ((fst s)\<lparr>self := (self (fst s))\<lparr>negotiated := True\<rparr>,
                   session := (session (fst s))\<lparr>content_negotiated :=
                     content_negotiated (session (fst s)) @ [media (self (fst s))]\<rparr>\<rparr>,
           snd s)"
  by (cases s) (simp add: on_content_accept_def on_negotiated_def)

text \<open>
  C2, as the code has it. The accept handler does not read \<open>negotiated\<close>. When
  \<open>accepted\<close> is false it changes nothing at all: it returns the content, the session
  and the \<open>content\<close> node as they were. When \<open>accepted\<close> is true it sets \<open>negotiated\<close>,
  calls the session's \<open>content_negotiated\<close> with the content's media and changes
  nothing else, also for a content that is negotiated already. It never raises. A
  content-accept or session-accept runs the transport-info handler and then, if that
  returned, the accept handler; so it notifies the session exactly when \<open>accepted\<close> is
  true.
\<close>

theorem accept_handler_notifies_when_accepted:
  "is_ok (on_content_accept s)
   \<and> accepted (self (fst (state_of (on_content_accept s)))) = accepted (self (fst s))
   \<and> negotiated (self (fst (state_of (on_content_accept s)))) =
       (negotiated (self (fst s)) \<or> accepted (self (fst s)))
   \<and> content_negotiated (session (fst (state_of (on_content_accept s)))) =
       content_negotiated (session (fst s)) @
         (if accepted (self (fst s)) then [media (self (fst s))] else [])
   \<and> (callbacks (self (fst s)) = Some init_callbacks
        \<and> (a = ''content-accept'' \<or> a = ''session-accept'')
        \<and> is_ok (on_transport_info E s) \<longrightarrow>
      content_negotiated (session (fst (state_of (on_stanza E a s)))) =
        content_negotiated (session (fst s)) @
          (if accepted (self (fst s)) then [media (self (fst s))] else []))
   \<and> (\<not> accepted (self (fst s)) \<longrightarrow> on_content_accept s = Ok s)
   \<and> (accepted (self (fst s)) \<longrightarrow>
        on_content_accept s =
          Ok ((fst s)\<lparr>self := (self (fst s))\<lparr>negotiated := True\<rparr>,
                      session := (session (fst s))\<lparr>content_negotiated :=
                        content_negotiated (session (fst s)) @ [media (self (fst s))]\<rparr>\<rparr>,
              snd s))
   \<and> (callbacks (self (fst s)) = Some init_callbacks
        \<and> (a = ''content-accept'' \<or> a = ''session-accept'') \<longrightarrow>
      on_stanza E a s = bind_result (on_transport_info E s) on_content_accept)"
  using on_stanza_accept_notifies [of s a E] on_content_accept_effect [of s]
    on_content_accept_not_accepted [of s] on_content_accept_accepted [of s]
    on_stanza_accept_handlers [of s a E]
  by simp

theorem accept_handler_notifies_when_accepted_witness:
  "callbacks (self (example_world False False)) = Some init_callbacks
   \<and> is_ok (on_transport_info example_env (example_world False False, Some example_node))
   \<and> \<not> accepted (self (example_world False False))
   \<and> content_negotiated (session (fst (state_of (on_stanza example_env ''session-accept''
        (example_world False False, Some example_node))))) = []
   \<and> on_content_accept (example_world False False, Some example_node) =
        Ok (example_world False False, Some example_node)
   \<and> callbacks (self (example_world True False)) = Some init_callbacks
   \<and> is_ok (on_transport_info example_env (example_world True False, Some example_node))
   \<and> accepted (self (example_world True False))
   \<and> \<not> negotiated (self (example_world True False))
   \<and> content_negotiated (session (fst (state_of (on_stanza example_env ''session-accept''
        (example_world True False, Some example_node))))) = [Some ''file'']
   \<and> negotiated (self (fst (state_of
        (on_content_accept (example_world True False, Some example_node)))))
   \<and> on_stanza example_env ''content-accept'' (example_world True False, Some example_node) =
        Ok (example_world True True
              \<lparr>session := example_session\<lparr>content_negotiated := [Some ''file'']\<rparr>\<rparr>,
            Some example_node)"
proof -
  let ?s = "(example_world False False, Some example_node)"
  let ?t = "(example_world True False, Some example_node)"
  have c: "callbacks (self (fst ?s)) = Some init_callbacks"
    "callbacks (self (fst ?t)) = Some init_callbacks"
    by (simp_all add: example_world_def init_content_def)
  have t: "on_transport_info example_env ?s = Ok ?s"
    "on_transport_info example_env ?t = Ok ?t"
    by (simp_all add: example_defs on_transport_info_def getTag_def)
  have a: "\<not> accepted (self (fst ?s))" "\<not> negotiated (self (fst ?s))"
    "content_negotiated (session (fst ?s)) = []"
    "accepted (self (fst ?t))" "\<not> negotiated (self (fst ?t))"
    "content_negotiated (session (fst ?t)) = []"
    "media (self (fst ?t)) = Some ''file''"
    by (simp_all add: example_defs)
  have e: "(fst ?t)\<lparr>self := (self (fst ?t))\<lparr>negotiated := True\<rparr>,
             session := (session (fst ?t))\<lparr>content_negotiated :=
               content_negotiated (session (fst ?t)) @ [media (self (fst ?t))]\<rparr>\<rparr>
           = example_world True True
               \<lparr>session := example_session\<lparr>content_negotiated := [Some ''file'']\<rparr>\<rparr>"
    by (simp add: example_world_def example_session_def)
  from c t a e
    accept_handler_notifies_when_accepted [of ?s "''session-accept''" example_env]
    accept_handler_notifies_when_accepted [of ?t "''session-accept''" example_env]
    accept_handler_notifies_when_accepted [of ?t "''content-accept''" example_env]
  show ?thesis by simp
qed

text \<open>
  C2, counterexample. A content that is accepted and negotiated already gets a
  content-accept: the session, not notified so far, is notified again.
\<close>

theorem accept_handler_renotifies_counterexample:
  "negotiated (self (example_world True True))
   \<and> content_negotiated (session (example_world True True)) = []
   \<and> content_negotiated (session (fst (state_of (on_stanza example_env ''content-accept''
        (example_world True True, Some example_node))))) = [Some ''file'']"
  by (simp add: example_defs on_stanza_def on_transport_info_def on_content_accept_def
        on_negotiated_def getTag_def)

subsection \<open>Filling the content node\<close>

lemma fill_content_node:
  assumes "file_props (self w) = Some fp"
  shows "is_ok (fill_content E (w, Some c))
   \<and> snd (state_of (fill_content E (w, Some c))) =
      Some (Node (tag c) (xmlns c) (attrs c) (cdata c)
        (kids c
         @ (if use_security (self w) = Some True
            then (case load_cert_file E of Some ce \<Rightarrow> [security_node ce] | None \<Rightarrow> [])
            else [])
         @ [Node ''description'' (Some JINGLE_FILE_TRANSFER_5) [] [] [fst (file_tag_of E fp (session w))]]))
   \<and> transport (self (fst (state_of (fill_content E (w, Some c))))) = transport (self w)"
  using assms
  by (simp add: fill_content_def Let_def addChild_def split: prod.splits option.splits)

lemma tag_security_node: "tag (security_node ce) = ''security''"
  by (simp add: security_node_def Let_def addChild_def)

lemma fill_jingle_stanza_node:
  assumes "file_props (self w) = Some fp" and "transport (self w) = Some t"
  shows "is_ok (fill_jingle_stanza E (w, Some c))
   \<and> snd (state_of (fill_jingle_stanza E (w, Some c))) =
      Some (Node (tag c) (xmlns c) (attrs c) (cdata c)
        (kids c
         @ (if use_security (self w) = Some True
            then (case load_cert_file E of Some ce \<Rightarrow> [security_node ce] | None \<Rightarrow> [])
            else [])
         @ [Node ''description'' (Some JINGLE_FILE_TRANSFER_5) [] [] [fst (file_tag_of E fp (session w))],
            make_transport E t None True]))"
proof -
  obtain w' c' where r: "fill_content E (w, Some c) = Ok (w', c')"
    using fill_content_node [OF assms(1), of E c]
    by (cases "fill_content E (w, Some c)") auto
  with fill_content_node [OF assms(1), of E c] assms(2)
  show ?thesis
    by (simp add: fill_jingle_stanza_def Let_def addChild_def)
qed

text \<open>
  C1, as the code has it. \<open>_fill_content\<close> appends the security element, when
  \<open>use_security\<close> is true and the certificate was loaded, and then the description;
  \<open>__fill_jingle_stanza\<close> appends the transport after that. So the children that the
  fill-stanza handler adds are security (if any), description, transport, in this
  order: the description comes after the security element, the transport is last.
\<close>

theorem fill_jingle_stanza_child_order:
  assumes "file_props (self w) = Some fp" and "transport (self w) = Some t"
    and "tag (make_transport E t None True) = ''transport''"
  shows "is_ok (fill_jingle_stanza E (w, Some c))
   \<and> content_kids (fill_jingle_stanza E (w, Some c)) =
       map tag (kids c)
       @ (if use_security (self w) = Some True \<and> load_cert_file E \<noteq> None
          then [''security''] else [])
       @ [''description'', ''transport'']
   \<and> (use_security (self w) = Some True \<and> load_cert_file E \<noteq> None \<and> kids c = [] \<longrightarrow>
        precedes ''security'' ''description'' (content_kids (fill_jingle_stanza E (w, Some c)))
        \<and> \<not> precedes ''description'' ''security''
              (content_kids (fill_jingle_stanza E (w, Some c))))
   \<and> (kids c = [] \<longrightarrow>
        precedes ''description'' ''transport'' (content_kids (fill_jingle_stanza E (w, Some c))))
   \<and> snd (state_of (fill_jingle_stanza E (w, Some c))) =
      Some (Node (tag c) (xmlns c) (attrs c) (cdata c)
        (kids c
         @ (if use_security (self w) = Some True
            then (case load_cert_file E of Some ce \<Rightarrow> [security_node ce] | None \<Rightarrow> [])
            else [])
         @ [Node ''description'' (Some JINGLE_FILE_TRANSFER_5) [] []
              [fst (file_tag_of E fp (session w))],
            make_transport E t None True]))"
proof -
  obtain w' c' where r: "fill_jingle_stanza E (w, Some c) = Ok (w', c')"
    using fill_jingle_stanza_node [OF assms(1,2), of E c]
    by (cases "fill_jingle_stanza E (w, Some c)") auto
  have k: "content_kids (fill_jingle_stanza E (w, Some c)) =
       map tag (kids c)
       @ (if use_security (self w) = Some True \<and> load_cert_file E \<noteq> None
          then [''security''] else [])
       @ [''description'', ''transport'']"
    using fill_jingle_stanza_node [OF assms(1,2), of E c] r assms(3)
    by (auto simp: tag_security_node)
  show ?thesis
    using fill_jingle_stanza_node [OF assms(1,2), of E c]
    by (simp add: k precedes_def)
qed

theorem fill_jingle_stanza_child_order_witness:
  "file_props (self (example_world True False)) = Some (example_file 8000000)
   \<and> transport (self (example_world True False)) = Some \<lparr>remote_candidates = []\<rparr>
   \<and> tag (make_transport example_env \<lparr>remote_candidates = []\<rparr> None True) = ''transport''
   \<and> use_security (self (example_world True False)) = Some True
   \<and> load_cert_file example_env \<noteq> None
   \<and> kids example_node = []
   \<and> is_ok (fill_jingle_stanza example_env (example_world True False, Some example_node))
   \<and> precedes ''security'' ''description''
        (content_kids (fill_jingle_stanza example_env
           (example_world True False, Some example_node)))"
proof -
  have a: "file_props (self (example_world True False)) = Some (example_file 8000000)"
    "transport (self (example_world True False)) = Some \<lparr>remote_candidates = []\<rparr>"
    "tag (make_transport example_env \<lparr>remote_candidates = []\<rparr> None True) = ''transport''"
    "use_security (self (example_world True False)) = Some True"
    "load_cert_file example_env \<noteq> None"
    "kids example_node = []"
    by (simp_all add: example_world_def init_content_def example_env_def example_node_def)
  from a fill_jingle_stanza_child_order [OF a(1,2,3), of example_node]
  show ?thesis by (simp add: precedes_def)
qed

text \<open>
  C1, counterexample. A content with \<open>use_security\<close> true and a certificate that loads,
  filled into an empty \<open>content\<close> node: the security element is the first child and the
  description the second.
\<close>

theorem security_before_description_counterexample:
  "use_security (self (example_world True False)) = Some True
   \<and> content_kids (fill_jingle_stanza example_env
        (example_world True False, Some example_node)) =
      [''security'', ''description'', ''transport'']
   \<and> \<not> precedes ''description'' ''security''
        (content_kids (fill_jingle_stanza example_env
           (example_world True False, Some example_node)))"
  by (simp add: example_defs fill_jingle_stanza_def fill_content_def file_tag_of_def Let_def
        addChild_def security_node_def precedes_def)


subsection \<open>The hash of a small file\<close>















section \<open>Properties of the file transfers window\<close>

subsection \<open>Speed and remaining time\<close>









lemma map_update_same:
  assumes "f y = f (xs ! i)"
  shows "map f (xs[i := y]) = map f xs"
proof (cases "i < length xs")
  case True
  with assms show ?thesis
    by (intro nth_equalityI) (auto simp: nth_list_update)
next
  case False
  then have "xs[i := y] = xs" by (intro list_update_beyond) simp
  then show ?thesis by simp
qed


lemma model_update_prop: "model (update_prop i f W) = model W"
  by (simp add: update_prop_def)











subsection \<open>Rows and records\<close>

lemma first_index_cong:
  "map P xs = map Q ys \<Longrightarrow> first_index P xs = first_index Q ys"
proof (induction xs arbitrary: ys)
  case Nil
  then show ?case by simp
next
  case (Cons x xs)
  then obtain y ys' where "ys = y # ys'" by (cases ys) auto
  with Cons show ?case by auto
qed

lemma first_index_hit:
  "i < length xs \<Longrightarrow> P (xs ! i) \<Longrightarrow> \<forall>j<i. \<not> P (xs ! j) \<Longrightarrow> first_index P xs = Some i"
proof (induction xs arbitrary: i)
  case Nil
  then show ?case by simp
next
  case (Cons x xs)
  show ?case
  proof (cases i)
    case 0
    with Cons.prems show ?thesis by simp
  next
    case (Suc k)
    with Cons.prems have "\<not> P x" by auto
    moreover from Suc Cons.prems have "first_index P xs = Some k"
      by (intro Cons.IH) auto
    ultimately show ?thesis using Suc by simp
  qed
qed

lemma files_prop_update_prop:
  "i < length (files_prop W) \<Longrightarrow>
     files_prop (update_prop i f W) = (files_prop W)[i := f (files_prop W ! i)]"
  by (simp add: update_prop_def)

lemma model_update_row:
  "r < length (model W) \<Longrightarrow> model (update_row r f W) = (model W)[r := f (model W ! r)]"
  by (simp add: update_row_def)

lemma length_update_prop: "length (files_prop (update_prop i f W)) = length (files_prop W)"
  by (simp add: update_prop_def)

lemma length_update_row: "length (model (update_row r f W)) = length (model W)"
  by (simp add: update_row_def)

lemma sids_update_row:
  "(\<And>rw. r_sid (f rw) = r_sid rw) \<Longrightarrow>
     map r_sid (model (update_row r f W)) = map r_sid (model W)"
  by (simp add: update_row_def map_update_same)



lemma getFilePropByType_cong:
  assumes "map type_fp fps' = map type_fp fps" and "map sid fps' = map sid fps"
  shows "getFilePropByType fps' ty sd = getFilePropByType fps ty sd"
  unfolding getFilePropByType_def
proof (rule first_index_cong)
  have l: "length fps' = length fps"
    using assms(1) by (rule map_eq_imp_length_eq)
  show "map (\<lambda>fp. type_fp fp = ty \<and> sid fp = sd) fps'
      = map (\<lambda>fp. type_fp fp = ty \<and> sid fp = sd) fps"
  proof (rule nth_equalityI)
    show "length (map (\<lambda>fp. type_fp fp = ty \<and> sid fp = sd) fps')
        = length (map (\<lambda>fp. type_fp fp = ty \<and> sid fp = sd) fps)"
      using l by simp
  next
    fix k assume "k < length (map (\<lambda>fp. type_fp fp = ty \<and> sid fp = sd) fps')"
    hence k: "k < length fps'" "k < length fps" using l by simp_all
    have "type_fp (fps' ! k) = type_fp (fps ! k)"
      using assms(1) k by (metis nth_map)
    moreover have "sid (fps' ! k) = sid (fps ! k)"
      using assms(2) k by (metis nth_map)
    ultimately show "map (\<lambda>fp. type_fp fp = ty \<and> sid fp = sd) fps' ! k
        = map (\<lambda>fp. type_fp fp = ty \<and> sid fp = sd) fps ! k"
      using k by simp
  qed
qed


lemma set_status_plain:
  assumes "deref W ref = Some fp"
    and "get_iter_by_sid W (type_fp fp) (sid fp) = Inr (Some r)"
    and "map_of icons st = Some icon"
    and "st \<noteq> ''stop''" and "st \<noteq> ''ok''" and "st \<noteq> ''computing''"
    and "st \<noteq> ''hash_error''"
  shows "set_status W ref st = Ok (update_row r (\<lambda>rw. rw\<lparr>r_image := Some icon\<rparr>) W)"
  using assms by (simp add: set_status_def Let_def)



subsection \<open>The status of a progress update\<close>






end
